theory Spec2Isabelle
  imports Complex_Main "HOL-Library.AList"
begin

section \<open>Python values\<close>

text \<open>
  The handlers of \<^verbatim>\<open>app.py\<close> work on whatever \<^verbatim>\<open>request.get_json()\<close> decoded, so the
  model carries the decoded JSON value with its dynamic type. A Python \<^verbatim>\<open>str\<close> is a
  \<^typ>\<open>string\<close> with one \<^typ>\<open>char\<close> per code point (code points above U+00FF are outside
  the model). A Python \<^verbatim>\<open>float\<close> is a rational or one of the special values the JSON
  decoder produces (\<^verbatim>\<open>-0.0\<close>, \<^verbatim>\<open>Infinity\<close> and \<^verbatim>\<open>1e999\<close>, \<^verbatim>\<open>-Infinity\<close>, \<^verbatim>\<open>NaN\<close>).
  A \<^verbatim>\<open>dict\<close> is an association list in insertion order.
\<close>

datatype pyfloat = Finite rat | NegZero | PosInf | NegInf | NaN

datatype json =
    JNull
  | JBool bool
  | JInt int
  | JFloat pyfloat
  | JStr string
  | JArr "json list"
  | JObj "(string \<times> json) list"

text \<open>The exception classes the code can raise.\<close>

datatype pyerr = AttributeError | TypeError | ValueError | OverflowError | KeyError

text \<open>Truth value of an object, as \<^verbatim>\<open>not x\<close> and \<^verbatim>\<open>x or y\<close> test it.\<close>

fun truthy :: "json \<Rightarrow> bool" where
  "truthy JNull = False"
| "truthy (JBool b) = b"
| "truthy (JInt n) = (n \<noteq> 0)"
| "truthy (JFloat f) = (f \<noteq> Finite 0 \<and> f \<noteq> NegZero)"
| "truthy (JStr s) = (s \<noteq> [])"
| "truthy (JArr xs) = (xs \<noteq> [])"
| "truthy (JObj kvs) = (kvs \<noteq> [])"

definition py_or :: "json \<Rightarrow> json \<Rightarrow> json" where
  "py_or x y = (if truthy x then x else y)"

subsection \<open>Characters and \<^verbatim>\<open>str\<close> methods\<close>

text \<open>\<^verbatim>\<open>str.isdigit\<close>, \<^verbatim>\<open>str.isalpha\<close> and \<^verbatim>\<open>str.isspace\<close> on the code points U+0000 to U+00FF.\<close>

definition isdigit :: "char \<Rightarrow> bool" where
  "isdigit c = (let n = (of_char c :: nat) in
     (48 \<le> n \<and> n \<le> 57) \<or> n = 178 \<or> n = 179 \<or> n = 185)"

definition isalpha :: "char \<Rightarrow> bool" where
  "isalpha c = (let n = (of_char c :: nat) in
     (65 \<le> n \<and> n \<le> 90) \<or> (97 \<le> n \<and> n \<le> 122) \<or> n = 170 \<or> n = 181 \<or> n = 186 \<or>
     (192 \<le> n \<and> n \<le> 214) \<or> (216 \<le> n \<and> n \<le> 246) \<or> (248 \<le> n \<and> n \<le> 255))"

definition isspace :: "char \<Rightarrow> bool" where
  "isspace c = (let n = (of_char c :: nat) in
     (9 \<le> n \<and> n \<le> 13) \<or> (28 \<le> n \<and> n \<le> 32) \<or> n = 133 \<or> n = 160)"

text \<open>On a whole string the two tests hold when it is not empty and every character passes.\<close>

definition str_isdigit :: "string \<Rightarrow> bool" where
  "str_isdigit s = (s \<noteq> [] \<and> list_all isdigit s)"

definition str_isalpha :: "string \<Rightarrow> bool" where
  "str_isalpha s = (s \<noteq> [] \<and> list_all isalpha s)"

definition strip :: "string \<Rightarrow> string" where
  "strip s = rev (dropWhile isspace (rev (dropWhile isspace s)))"

subsection \<open>\<^verbatim>\<open>len\<close>, iteration and \<^verbatim>\<open>any\<close>\<close>

fun py_len :: "json \<Rightarrow> pyerr + nat" where
  "py_len (JStr s) = Inr (length s)"
| "py_len (JArr xs) = Inr (length xs)"
| "py_len (JObj kvs) = Inr (length kvs)"
| "py_len _ = Inl TypeError"

text \<open>Iterating a string yields its characters, a list its items, a dict its keys.\<close>

fun py_iter :: "json \<Rightarrow> pyerr + json list" where
  "py_iter (JStr s) = Inr (map (\<lambda>c. JStr [c]) s)"
| "py_iter (JArr xs) = Inr xs"
| "py_iter (JObj kvs) = Inr (map (\<lambda>kv. JStr (fst kv)) kvs)"
| "py_iter _ = Inl TypeError"

text \<open>
  \<^verbatim>\<open>any(c.m() for c in cs)\<close> for a \<^verbatim>\<open>str\<close> method \<^verbatim>\<open>m\<close>: it stops at the first item that
  passes, and an item that is not a string has no such method.
\<close>

fun any_method :: "(string \<Rightarrow> bool) \<Rightarrow> json list \<Rightarrow> pyerr + bool" where
  "any_method m [] = Inr False"
| "any_method m (JStr s # cs) = (if m s then Inr True else any_method m cs)"
| "any_method m (_ # cs) = Inl AttributeError"

subsection \<open>\<^verbatim>\<open>int\<close>\<close>

text \<open>
  \<^verbatim>\<open>int(s)\<close> on a string: optional white space, an optional sign, decimal digits with
  single underscores between them, optional white space; anything else is a
  \<^verbatim>\<open>ValueError\<close>, and so is a literal of more than 4300 digits.
\<close>

definition ascii_digit :: "char \<Rightarrow> bool" where
  "ascii_digit c = (let n = (of_char c :: nat) in 48 \<le> n \<and> n \<le> 57)"

definition int_space :: "char \<Rightarrow> bool" where
  "int_space c = (let n = (of_char c :: nat) in
     (9 \<le> n \<and> n \<le> 13) \<or> n = 32 \<or> n = 133 \<or> n = 160)"

fun valid_digits :: "string \<Rightarrow> bool" where
  "valid_digits [] = False"
| "valid_digits [c] = ascii_digit c"
| "valid_digits (c # d # cs) =
     (ascii_digit c \<and> (if d = CHR ''_'' then valid_digits cs else valid_digits (d # cs)))"

definition digits_value :: "string \<Rightarrow> nat" where
  "digits_value ds = foldl (\<lambda>a c. 10 * a + (of_char c - 48)) 0 ds"

definition int_of_str :: "string \<Rightarrow> pyerr + int" where
  "int_of_str s =
     (let t = rev (dropWhile int_space (rev (dropWhile int_space s)));
          negative = (case t of c # r \<Rightarrow> c = CHR ''-'' | [] \<Rightarrow> False);
          body = (case t of c # r \<Rightarrow> if c = CHR ''-'' \<or> c = CHR ''+'' then r else t | [] \<Rightarrow> t);
          ds = filter (\<lambda>c. c \<noteq> CHR ''_'') body
      in if \<not> valid_digits body \<or> 4300 < length ds then Inl ValueError
         else Inr (if negative then - int (digits_value ds) else int (digits_value ds)))"

text \<open>
  \<^verbatim>\<open>int(x)\<close> on a decoded JSON value: a float is truncated towards zero, an infinite
  float is an \<^verbatim>\<open>OverflowError\<close>, a NaN a \<^verbatim>\<open>ValueError\<close>; \<^verbatim>\<open>None\<close>, lists and dicts are a
  \<^verbatim>\<open>TypeError\<close>.
\<close>

fun py_int :: "json \<Rightarrow> pyerr + int" where
  "py_int JNull = Inl TypeError"
| "py_int (JBool b) = Inr (if b then 1 else 0)"
| "py_int (JInt n) = Inr n"
| "py_int (JFloat (Finite r)) = Inr (if 0 \<le> r then \<lfloor>r\<rfloor> else \<lceil>r\<rceil>)"
| "py_int (JFloat NegZero) = Inr 0"
| "py_int (JFloat PosInf) = Inl OverflowError"
| "py_int (JFloat NegInf) = Inl OverflowError"
| "py_int (JFloat NaN) = Inl ValueError"
| "py_int (JStr s) = int_of_str s"
| "py_int (JArr xs) = Inl TypeError"
| "py_int (JObj kvs) = Inl TypeError"

subsection \<open>Dict operations on a decoded JSON object\<close>

text \<open>\<^verbatim>\<open>data.get(k)\<close> gives \<^verbatim>\<open>None\<close> for an absent key, \<^verbatim>\<open>data[k]\<close> raises \<^verbatim>\<open>KeyError\<close>.\<close>

definition dict_get :: "(string \<times> json) list \<Rightarrow> string \<Rightarrow> json" where
  "dict_get data k = (case map_of data k of None \<Rightarrow> JNull | Some v \<Rightarrow> v)"

definition subscript :: "(string \<times> json) list \<Rightarrow> string \<Rightarrow> pyerr + json" where
  "subscript data k = (case map_of data k of None \<Rightarrow> Inl KeyError | Some v \<Rightarrow> Inr v)"

fun join :: "string \<Rightarrow> string list \<Rightarrow> string" where
  "join sep [] = []"
| "join sep [x] = x"
| "join sep (x # y # xs) = x @ sep @ join sep (y # xs)"

subsection \<open>Dict keys\<close>

text \<open>
  A dict finds a key by hash and equality: \<^verbatim>\<open>1\<close>, \<^verbatim>\<open>1.0\<close> and \<^verbatim>\<open>True\<close> are one key, and
  a list or a dict cannot be a key (\<^verbatim>\<open>TypeError: unhashable type\<close>).
\<close>

datatype key = KNone | KNum rat | KPosInf | KNegInf | KNaN | KStr string

fun key_of :: "json \<Rightarrow> pyerr + key" where
  "key_of JNull = Inr KNone"
| "key_of (JBool b) = Inr (KNum (if b then 1 else 0))"
| "key_of (JInt n) = Inr (KNum (of_int n))"
| "key_of (JFloat (Finite r)) = Inr (KNum r)"
| "key_of (JFloat NegZero) = Inr (KNum 0)"
| "key_of (JFloat PosInf) = Inr KPosInf"
| "key_of (JFloat NegInf) = Inr KNegInf"
| "key_of (JFloat NaN) = Inr KNaN"
| "key_of (JStr s) = Inr (KStr s)"
| "key_of (JArr xs) = Inl TypeError"
| "key_of (JObj kvs) = Inl TypeError"

text \<open>
  \<^verbatim>\<open>jsonify\<close> writes the keys of a dict in sorted order (\<^verbatim>\<open>sort_keys\<close> is on by default),
  and sorting compares the keys with \<^verbatim>\<open><\<close>: strings with strings and numbers with numbers
  only, \<^verbatim>\<open>None\<close> with nothing (\<^verbatim>\<open>TypeError\<close> otherwise). A dict of at most one key needs
  no comparison.
\<close>

fun is_str_key :: "key \<Rightarrow> bool" where
  "is_str_key (KStr s) = True"
| "is_str_key _ = False"

fun is_num_key :: "key \<Rightarrow> bool" where
  "is_num_key KNone = False"
| "is_num_key (KStr s) = False"
| "is_num_key _ = True"

definition sortable :: "key list \<Rightarrow> bool" where
  "sortable ks = (length ks \<le> 1 \<or> list_all is_str_key ks \<or> list_all is_num_key ks)"

section \<open>Password policy\<close>

definition validate_password :: "json \<Rightarrow> pyerr + string option" where
  "validate_password password =
     (case py_len password of
        Inl e \<Rightarrow> Inl e
      | Inr n \<Rightarrow>
          if n < 8 then Inr (Some ''Password must be at least 8 characters long.'')
          else (case py_iter password of
              Inl e \<Rightarrow> Inl e
            | Inr cs \<Rightarrow>
                (case any_method str_isdigit cs of
                   Inl e \<Rightarrow> Inl e
                 | Inr has_digit \<Rightarrow>
                     (case any_method str_isalpha cs of
                        Inl e \<Rightarrow> Inl e
                      | Inr has_alpha \<Rightarrow>
                          if \<not> (has_digit \<and> has_alpha)
                          then Inr (Some ''Password must contain at least one letter and one number.'')
                          else Inr None))))"


section \<open>Data model\<close>

text \<open>
  A \<^verbatim>\<open>Book\<close> is a dataclass instance: the model keeps its instance dictionary, since
  \<^verbatim>\<open>update_book\<close> assigns attributes by name with \<^verbatim>\<open>setattr\<close>. The dataclass does not
  enforce its annotations, so an attribute holds whatever value was assigned.
\<close>

type_synonym book = "(string \<times> json) list"

definition Book :: "json \<Rightarrow> json \<Rightarrow> json \<Rightarrow> json \<Rightarrow> json \<Rightarrow> json \<Rightarrow> json \<Rightarrow> json \<Rightarrow> book" where
  "Book book_id title author publisher year genre stock owner =
     [(''id'', book_id), (''title'', title), (''author'', author), (''publisher'', publisher),
      (''year'', year), (''genre'', genre), (''stock'', stock), (''owner'', owner)]"

definition field_names :: "string list" where
  "field_names = [''id'', ''title'', ''author'', ''publisher'', ''year'', ''genre'', ''stock'', ''owner'']"

text \<open>The names the class \<^verbatim>\<open>Book\<close> itself answers to (\<^verbatim>\<open>dir(Book)\<close>, CPython 3.11).\<close>

definition class_attrs :: "string list" where
  "class_attrs =
     [''__annotations__'', ''__class__'', ''__dataclass_fields__'', ''__dataclass_params__'',
      ''__delattr__'', ''__dict__'', ''__dir__'', ''__doc__'', ''__eq__'', ''__format__'',
      ''__ge__'', ''__getattribute__'', ''__getstate__'', ''__gt__'', ''__hash__'', ''__init__'',
      ''__init_subclass__'', ''__le__'', ''__lt__'', ''__match_args__'', ''__module__'',
      ''__ne__'', ''__new__'', ''__reduce__'', ''__reduce_ex__'', ''__repr__'', ''__setattr__'',
      ''__sizeof__'', ''__str__'', ''__subclasshook__'', ''__weakref__'']"

text \<open>Reading a field: the fields have no default, so only the instance can supply them.\<close>

definition getattr :: "book \<Rightarrow> string \<Rightarrow> pyerr + json" where
  "getattr b name = (case map_of b name of None \<Rightarrow> Inl AttributeError | Some v \<Rightarrow> Inr v)"

definition hasattr :: "book \<Rightarrow> string \<Rightarrow> bool" where
  "hasattr b name = (map_of b name \<noteq> None \<or> name \<in> set class_attrs)"

text \<open>
  \<^verbatim>\<open>setattr(book, name, value)\<close>: \<^verbatim>\<open>__class__\<close> accepts only a class, \<^verbatim>\<open>__dict__\<close> only a
  dict, which then replaces the instance dictionary, \<^verbatim>\<open>__weakref__\<close> is read-only; any
  other name is stored in the instance dictionary.
\<close>

definition setattr :: "book \<Rightarrow> string \<Rightarrow> json \<Rightarrow> pyerr + book" where
  "setattr b name v =
     (if name = ''__class__'' then Inl TypeError
      else if name = ''__dict__'' then (case v of JObj d \<Rightarrow> Inr d | _ \<Rightarrow> Inl TypeError)
      else if name = ''__weakref__'' then Inl AttributeError
      else Inr (AList.update name v b))"

text \<open>
  \<^verbatim>\<open>asdict(book)\<close> reads the field list through the instance, so an instance attribute
  \<^verbatim>\<open>__dataclass_fields__\<close> shadows the one of the class: an empty dict there gives no fields,
  any other JSON value has no \<^verbatim>\<open>Field\<close> objects to offer.
\<close>

fun read_fields :: "book \<Rightarrow> string list \<Rightarrow> pyerr + (string \<times> json) list" where
  "read_fields b [] = Inr []"
| "read_fields b (f # fs) =
     (case getattr b f of
        Inl e \<Rightarrow> Inl e
      | Inr v \<Rightarrow> (case read_fields b fs of Inl e \<Rightarrow> Inl e | Inr r \<Rightarrow> Inr ((f, v) # r)))"

definition asdict :: "book \<Rightarrow> pyerr + json" where
  "asdict b =
     (case map_of b ''__dataclass_fields__'' of
        None \<Rightarrow> (case read_fields b field_names of Inl e \<Rightarrow> Inl e | Inr r \<Rightarrow> Inr (JObj r))
      | Some (JObj []) \<Rightarrow> Inr (JObj [])
      | Some _ \<Rightarrow> Inl AttributeError)"

definition book_to_dict :: "book \<Rightarrow> pyerr + json" where
  "book_to_dict book = asdict book"

text \<open>The catalog is a dict from book id to \<^verbatim>\<open>Book\<close>, in insertion order.\<close>

type_synonym catalog = "(key \<times> book) list"

definition initial_books :: catalog where
  "initial_books =
     [(KStr ''BK001'', Book (JStr ''BK001'') (JStr ''Designing Your Life'') (JStr ''Bill Burnett'')
         (JStr ''Knopf'') (JInt 2016) (JStr ''Self-help'') (JInt 5) (JStr ''admin'')),
      (KStr ''BK002'', Book (JStr ''BK002'') (JStr ''Atomic Habits'') (JStr ''James Clear'')
         (JStr ''Avery'') (JInt 2018) (JStr ''Self-help'') (JInt 8) (JStr ''admin'')),
      (KStr ''BK003'', Book (JStr ''BK003'') (JStr ''Mindset: The New Psychology of Success'')
         (JStr ''Carol S. Dweck'') (JStr ''Random House'') (JInt 2006) (JStr ''Psychology'')
         (JInt 4) (JStr ''admin''))]"

text \<open>The user store: username to record. Its file copy is not part of the model.\<close>

record user_record =
  password_hash :: string

type_synonym credentials = "string \<rightharpoonup> user_record"

section \<open>Requests and responses\<close>

text \<open>
  A request carries what the handlers read: \<^verbatim>\<open>request.authorization\<close> and the value
  \<^verbatim>\<open>request.get_json()\<close> decoded. A response is the value handed to \<^verbatim>\<open>jsonify\<close>, the status
  and the extra headers; a handler either returns one or lets an exception escape.
\<close>

datatype authorization = Authorization (auth_username: "string option") (auth_password: "string option")

record request =
  authorization :: "authorization option"
  get_json :: json

datatype payload = Json json | Listing "(key \<times> json) list"

type_synonym response = "payload \<times> nat \<times> (string \<times> string) list"

datatype outcome = Returned response | Raised pyerr

definition error_response :: "string \<Rightarrow> nat \<Rightarrow> response" where
  "error_response msg code = (Json (JObj [(''error'', JStr msg)]), code, [])"

definition message_response :: "string \<Rightarrow> nat \<Rightarrow> response" where
  "message_response msg code = (Json (JObj [(''message'', JStr msg)]), code, [])"


section \<open>Authentication\<close>

text \<open>The header \<^verbatim>\<open>{"WWW-Authenticate": 'Basic realm="Login required"'}\<close> of both rejections.\<close>

definition challenge :: "(string \<times> string) list" where
  "challenge =
     [(''WWW-Authenticate'', ''Basic realm='' @ [CHR 0x22] @ ''Login required'' @ [CHR 0x22])]"

definition authentication_required :: response where
  "authentication_required =
     (Json (JObj [(''detail'', JStr ''Authentication required'')]), 401, challenge)"

definition invalid_credentials :: response where
  "invalid_credentials =
     (Json (JObj [(''detail'', JStr ''Invalid username or password'')]), 401, challenge)"

text \<open>
  The decorator: \<^verbatim>\<open>require_auth check users func\<close> is the wrapper around \<^verbatim>\<open>func\<close>. The
  wrapped function receives \<^verbatim>\<open>g.current_user\<close> as its first argument (\<open>None\<close> when the
  attribute was never set). \<^verbatim>\<open>check_password_hash\<close> comes from werkzeug and is a parameter,
  as is \<^verbatim>\<open>generate_password_hash\<close> below.
\<close>

definition require_auth ::
  "(string \<Rightarrow> string \<Rightarrow> bool) \<Rightarrow> credentials \<Rightarrow>
   (string option \<Rightarrow> request \<Rightarrow> 's \<Rightarrow> outcome \<times> 's) \<Rightarrow> request \<Rightarrow> 's \<Rightarrow> outcome \<times> 's" where
  "require_auth check_password_hash users func req s =
     (case authorization req of
        None \<Rightarrow> (Returned authentication_required, s)
      | Some auth \<Rightarrow>
          (case auth_username auth of
             None \<Rightarrow> (Returned authentication_required, s)
           | Some username \<Rightarrow>
               (case auth_password auth of
                  None \<Rightarrow> (Returned authentication_required, s)
                | Some password \<Rightarrow>
                    if username = [] \<or> password = [] then (Returned authentication_required, s)
                    else (case users username of
                        None \<Rightarrow> (Returned invalid_credentials, s)
                      | Some user_record \<Rightarrow>
                          if \<not> check_password_hash (password_hash user_record) password
                          then (Returned invalid_credentials, s)
                          else func (Some username) req s))))"

section \<open>Helpers for books\<close>

definition get_book_or_404 :: "catalog \<Rightarrow> string \<Rightarrow> response + book" where
  "get_book_or_404 books book_id =
     (case map_of books (KStr book_id) of
        None \<Rightarrow> Inl (error_response ''Book not found'' 404)
      | Some book \<Rightarrow> Inr book)"

definition ensure_owner :: "string option \<Rightarrow> book \<Rightarrow> pyerr + response option" where
  "ensure_owner g book =
     (case g of
        None \<Rightarrow> Inr (Some (error_response ''Authentication required'' 401))
      | Some current_user \<Rightarrow>
          if current_user = [] then Inr (Some (error_response ''Authentication required'' 401))
          else (case getattr book ''owner'' of
              Inl e \<Rightarrow> Inl e
            | Inr owner \<Rightarrow>
                if owner \<noteq> JStr current_user
                then Inr (Some (error_response ''Forbidden: not the owner of this resource'' 403))
                else Inr None))"

section \<open>Registration and auth endpoints\<close>

text \<open>
  \<^verbatim>\<open>generate_password_hash\<close> salts at random, so the hash it returns for a password is
  the parameter \<open>gen\<close>; on a value that is not a string it fails at \<^verbatim>\<open>password.encode()\<close>.
  Writing the store to \<^verbatim>\<open>users.json\<close> does not touch the store in memory.
\<close>

definition generate_password_hash :: "(string \<Rightarrow> string) \<Rightarrow> json \<Rightarrow> pyerr + string" where
  "generate_password_hash gen password =
     (case password of JStr p \<Rightarrow> Inr (gen p) | _ \<Rightarrow> Inl AttributeError)"

definition register :: "(string \<Rightarrow> string) \<Rightarrow> request \<Rightarrow> credentials \<Rightarrow> outcome \<times> credentials" where
  "register gen req users =
     (case py_or (get_json req) (JObj []) of
        JObj data \<Rightarrow>
          (case py_or (dict_get data ''username'') (JStr []) of
             JStr raw \<Rightarrow>
               (let username = strip raw;
                    password = py_or (dict_get data ''password'') (JStr [])
                in if username = [] \<or> \<not> truthy password
                   then (Returned (error_response ''username and password are required'' 400), users)
                   else if length username < 3
                   then (Returned (error_response ''username must be at least 3 characters'' 400), users)
                   else if users username \<noteq> None
                   then (Returned (error_response ''username already exists'' 400), users)
                   else (case validate_password password of
                       Inl e \<Rightarrow> (Raised e, users)
                     | Inr (Some pw_error) \<Rightarrow> (Returned (error_response pw_error 400), users)
                     | Inr None \<Rightarrow>
                         (case generate_password_hash gen password of
                            Inl e \<Rightarrow> (Raised e, users)
                          | Inr hash \<Rightarrow>
                              (Returned (message_response ''User registered successfully'' 201),
                               users(username \<mapsto> \<lparr>password_hash = hash\<rparr>)))))
           | _ \<Rightarrow> (Raised AttributeError, users))
      | _ \<Rightarrow> (Raised AttributeError, users))"

definition me_func :: "string option \<Rightarrow> request \<Rightarrow> 's \<Rightarrow> outcome \<times> 's" where
  "me_func g req s =
     (case g of
        None \<Rightarrow> (Raised AttributeError, s)
      | Some current_user \<Rightarrow> (Returned (Json (JObj [(''username'', JStr current_user)]), 200, []), s))"

definition me :: "(string \<Rightarrow> string \<Rightarrow> bool) \<Rightarrow> credentials \<Rightarrow> request \<Rightarrow> 's \<Rightarrow> outcome \<times> 's" where
  "me check users = require_auth check users me_func"

section \<open>Book endpoints\<close>

fun books_to_dicts :: "catalog \<Rightarrow> pyerr + (key \<times> json) list" where
  "books_to_dicts [] = Inr []"
| "books_to_dicts ((book_id, book) # rest) =
     (case book_to_dict book of
        Inl e \<Rightarrow> Inl e
      | Inr d \<Rightarrow> (case books_to_dicts rest of Inl e \<Rightarrow> Inl e | Inr ds \<Rightarrow> Inr ((book_id, d) # ds)))"

text \<open>
  The dict comprehension of \<^verbatim>\<open>list_books\<close> is keyed by book id, so \<^verbatim>\<open>jsonify\<close> has to sort
  the ids. Every other dict the handlers hand to \<^verbatim>\<open>jsonify\<close> has string keys.
\<close>

definition list_books :: "catalog \<Rightarrow> outcome" where
  "list_books books =
     (case books_to_dicts books of
        Inl e \<Rightarrow> Raised e
      | Inr ds \<Rightarrow>
          if sortable (map fst ds) then Returned (Listing ds, 200, []) else Raised TypeError)"

definition get_book :: "string \<Rightarrow> catalog \<Rightarrow> outcome" where
  "get_book book_id books =
     (case get_book_or_404 books book_id of
        Inl error_resp \<Rightarrow> Returned error_resp
      | Inr book \<Rightarrow>
          (case book_to_dict book of
             Inl e \<Rightarrow> Raised e
           | Inr d \<Rightarrow> Returned (Json d, 200, [])))"

definition required_fields :: "string list" where
  "required_fields = [''title'', ''author'', ''publisher'', ''year'', ''genre'', ''stock'']"

text \<open>\<^verbatim>\<open>int(data[k])\<close>, as the \<^verbatim>\<open>try\<close> blocks evaluate it.\<close>

definition int_item :: "(string \<times> json) list \<Rightarrow> string \<Rightarrow> pyerr + int" where
  "int_item data k = (case subscript data k of Inl e \<Rightarrow> Inl e | Inr v \<Rightarrow> py_int v)"

text \<open>The clause \<^verbatim>\<open>except (TypeError, ValueError)\<close>.\<close>

definition caught :: "pyerr \<Rightarrow> bool" where
  "caught e = (e = TypeError \<or> e = ValueError)"

definition create_book_func :: "string option \<Rightarrow> request \<Rightarrow> catalog \<Rightarrow> outcome \<times> catalog" where
  "create_book_func g req books =
     (case py_or (get_json req) (JObj []) of
        JObj data \<Rightarrow>
          (let book_id = dict_get data ''id'' in
           if \<not> truthy book_id
           then (Returned (error_response ''Field 'id' is required'' 400), books)
           else (case key_of book_id of
               Inl e \<Rightarrow> (Raised e, books)
             | Inr k \<Rightarrow>
                 if map_of books k \<noteq> None
                 then (Returned (error_response ''Book with this id already exists'' 400), books)
                 else (let missing = filter (\<lambda>field. map_of data field = None) required_fields
                   in if missing \<noteq> []
                      then (Returned (error_response (''Missing fields: '' @ join '', '' missing) 400), books)
                      else (case int_item data ''year'' of
                          Inl e \<Rightarrow>
                            if caught e
                            then (Returned (error_response ''year and stock must be integers'' 400), books)
                            else (Raised e, books)
                        | Inr year \<Rightarrow>
                       (case int_item data ''stock'' of
                          Inl e \<Rightarrow>
                            if caught e
                            then (Returned (error_response ''year and stock must be integers'' 400), books)
                            else (Raised e, books)
                        | Inr stock \<Rightarrow>
                       (case subscript data ''title'' of Inl e \<Rightarrow> (Raised e, books) | Inr title \<Rightarrow>
                       (case subscript data ''author'' of Inl e \<Rightarrow> (Raised e, books) | Inr author \<Rightarrow>
                       (case subscript data ''publisher'' of Inl e \<Rightarrow> (Raised e, books) | Inr publisher \<Rightarrow>
                       (case subscript data ''genre'' of Inl e \<Rightarrow> (Raised e, books) | Inr genre \<Rightarrow>
                       (case g of None \<Rightarrow> (Raised AttributeError, books) | Some current_user \<Rightarrow>
                          (let new_book = Book book_id title author publisher (JInt year) genre
                                 (JInt stock) (JStr current_user);
                               books' = AList.update k new_book books
                           in (case book_to_dict new_book of
                                 Inl e \<Rightarrow> (Raised e, books')
                               | Inr d \<Rightarrow>
                                   (Returned (Json (JObj [(''message'', JStr ''Book created''), (''book'', d)]),
                                      201, []), books')))))))))))))
      | _ \<Rightarrow> (Raised AttributeError, books))"

definition create_book ::
  "(string \<Rightarrow> string \<Rightarrow> bool) \<Rightarrow> credentials \<Rightarrow> request \<Rightarrow> catalog \<Rightarrow> outcome \<times> catalog" where
  "create_book check users = require_auth check users create_book_func"

text \<open>
  \<^verbatim>\<open>if k in data: data[k] = int(data[k])\<close>; the caller decides which exceptions its
  \<^verbatim>\<open>try\<close> catches.
\<close>

definition coerce_field :: "string \<Rightarrow> (string \<times> json) list \<Rightarrow> pyerr + (string \<times> json) list" where
  "coerce_field k data =
     (case map_of data k of
        None \<Rightarrow> Inr data
      | Some v \<Rightarrow> (case py_int v of Inl e \<Rightarrow> Inl e | Inr n \<Rightarrow> Inr (AList.update k (JInt n) data)))"

text \<open>
  The loop \<^verbatim>\<open>for field, value in data.items()\<close>. It assigns to the stored object itself,
  so what it has assigned stays assigned when a later \<^verbatim>\<open>setattr\<close> raises.
\<close>

fun set_fields :: "book \<Rightarrow> (string \<times> json) list \<Rightarrow> pyerr option \<times> book" where
  "set_fields book [] = (None, book)"
| "set_fields book ((field, v) # rest) =
     (if hasattr book field
      then (case setattr book field v of
              Inl e \<Rightarrow> (Some e, book)
            | Inr book' \<Rightarrow> set_fields book' rest)
      else set_fields book rest)"

definition update_book_func ::
  "string \<Rightarrow> string option \<Rightarrow> request \<Rightarrow> catalog \<Rightarrow> outcome \<times> catalog" where
  "update_book_func book_id g req books =
     (case get_book_or_404 books book_id of
        Inl error_resp \<Rightarrow> (Returned error_resp, books)
      | Inr book \<Rightarrow>
          (case ensure_owner g book of
             Inl e \<Rightarrow> (Raised e, books)
           | Inr (Some forbidden) \<Rightarrow> (Returned forbidden, books)
           | Inr None \<Rightarrow>
               (case py_or (get_json req) (JObj []) of
                  JObj data0 \<Rightarrow>
                    (let data1 = AList.delete ''id'' (AList.delete ''owner'' data0)
                     in (case coerce_field ''year'' data1 of
                           Inl e \<Rightarrow>
                             if caught e
                             then (Returned (error_response ''year must be an integer'' 400), books)
                             else (Raised e, books)
                         | Inr data2 \<Rightarrow>
                        (case coerce_field ''stock'' data2 of
                           Inl e \<Rightarrow>
                             if caught e
                             then (Returned (error_response ''stock must be an integer'' 400), books)
                             else (Raised e, books)
                         | Inr data3 \<Rightarrow>
                        (case set_fields book data3 of
                           (Some e, book') \<Rightarrow> (Raised e, AList.update (KStr book_id) book' books)
                         | (None, book') \<Rightarrow>
                             (let books' = AList.update (KStr book_id) book' books
                              in (case book_to_dict book' of
                                    Inl e \<Rightarrow> (Raised e, books')
                                  | Inr d \<Rightarrow>
                                      (Returned (Json (JObj [(''message'', JStr ''Book updated''), (''book'', d)]),
                                         200, []), books')))))))
                | JArr xs \<Rightarrow> (Raised TypeError, books)
                | _ \<Rightarrow> (Raised AttributeError, books))))"

definition update_book ::
  "(string \<Rightarrow> string \<Rightarrow> bool) \<Rightarrow> credentials \<Rightarrow> string \<Rightarrow> request \<Rightarrow> catalog \<Rightarrow> outcome \<times> catalog" where
  "update_book check users book_id = require_auth check users (update_book_func book_id)"

definition delete_book_func ::
  "string \<Rightarrow> string option \<Rightarrow> request \<Rightarrow> catalog \<Rightarrow> outcome \<times> catalog" where
  "delete_book_func book_id g req books =
     (case get_book_or_404 books book_id of
        Inl error_resp \<Rightarrow> (Returned error_resp, books)
      | Inr book \<Rightarrow>
          (case ensure_owner g book of
             Inl e \<Rightarrow> (Raised e, books)
           | Inr (Some forbidden) \<Rightarrow> (Returned forbidden, books)
           | Inr None \<Rightarrow>
               (Returned (message_response ''Book deleted'' 200), AList.delete (KStr book_id) books)))"

definition delete_book ::
  "(string \<Rightarrow> string \<Rightarrow> bool) \<Rightarrow> credentials \<Rightarrow> string \<Rightarrow> request \<Rightarrow> catalog \<Rightarrow> outcome \<times> catalog" where
  "delete_book check users book_id = require_auth check users (delete_book_func book_id)"

section \<open>The routes\<close>

text \<open>
  The seven routes of the application, each applied to the whole state: the user store
  and the catalog.
\<close>

datatype endpoint =
    Register | Me | ListBooks | GetBook string | CreateBook | UpdateBook string | DeleteBook string

record state =
  users :: credentials
  books :: catalog

definition handle ::
  "(string \<Rightarrow> string \<Rightarrow> bool) \<Rightarrow> (string \<Rightarrow> string) \<Rightarrow> endpoint \<Rightarrow> request \<Rightarrow> state \<Rightarrow> outcome \<times> state" where
  "handle check gen ep req st =
     (case ep of
        Register \<Rightarrow> (case register gen req (users st) of (out, us) \<Rightarrow> (out, st\<lparr>users := us\<rparr>))
      | Me \<Rightarrow> me check (users st) req st
      | ListBooks \<Rightarrow> (list_books (books st), st)
      | GetBook book_id \<Rightarrow> (get_book book_id (books st), st)
      | CreateBook \<Rightarrow>
          (case create_book check (users st) req (books st) of (out, bs) \<Rightarrow> (out, st\<lparr>books := bs\<rparr>))
      | UpdateBook book_id \<Rightarrow>
          (case update_book check (users st) book_id req (books st) of (out, bs) \<Rightarrow> (out, st\<lparr>books := bs\<rparr>))
      | DeleteBook book_id \<Rightarrow>
          (case delete_book check (users st) book_id req (books st) of (out, bs) \<Rightarrow> (out, st\<lparr>books := bs\<rparr>)))"

text \<open>A sequence of requests, served one after the other.\<close>

fun serve ::
  "(string \<Rightarrow> string \<Rightarrow> bool) \<Rightarrow> (string \<Rightarrow> string) \<Rightarrow> (endpoint \<times> request) list \<Rightarrow> state \<Rightarrow> state" where
  "serve check gen [] st = st"
| "serve check gen ((ep, req) # rest) st = serve check gen rest (snd (handle check gen ep req st))"


section \<open>Vocabulary of the properties\<close>

text \<open>
  The request carries the credentials of identity \<open>u\<close>: both fields present and not empty,
  \<open>u\<close> in the user store, and the password accepted for the stored hash. This is what
  the wrapper of \<^verbatim>\<open>require_auth\<close> checks before it calls the wrapped function.
\<close>

definition authenticated_as :: "(string \<Rightarrow> string \<Rightarrow> bool) \<Rightarrow> credentials \<Rightarrow> request \<Rightarrow> string \<Rightarrow> bool" where
  "authenticated_as check us req u =
     (case authorization req of
        None \<Rightarrow> False
      | Some auth \<Rightarrow>
          auth_username auth = Some u \<and> u \<noteq> [] \<and>
          (case auth_password auth of
             None \<Rightarrow> False
           | Some pw \<Rightarrow> pw \<noteq> [] \<and> (case us u of None \<Rightarrow> False | Some r \<Rightarrow> check (password_hash r) pw)))"


section \<open>Password policy: the rule\<close>

lemma any_method_chars:
  "any_method m (map (\<lambda>c. JStr [c]) s) = Inr (\<exists>c\<in>set s. m [c])"
  by (induction s) auto

lemma validate_password_str:
  "validate_password (JStr p) =
     Inr (if length p < 8 then Some ''Password must be at least 8 characters long.''
          else if \<not> ((\<exists>c\<in>set p. isdigit c) \<and> (\<exists>c\<in>set p. isalpha c))
          then Some ''Password must contain at least one letter and one number.''
          else None)"
  by (simp add: validate_password_def any_method_chars str_isdigit_def str_isalpha_def)

text \<open>
  Claim C7. On a string, \<^verbatim>\<open>validate_password\<close> returns an error reason exactly when the
  password is shorter than 8 characters, or has no alphabetic character, or has no digit,
  and returns \<^verbatim>\<open>None\<close> otherwise; it raises nothing. \<^verbatim>\<open>"short1"\<close> and
  \<^verbatim>\<open>"alllettersnodigit"\<close> are rejected, \<^verbatim>\<open>"alllower1"\<close> and \<^verbatim>\<open>"GOOD1234"\<close> are accepted.
  The function is a HOL function of the password alone, so it has no effect and no other
  input.
\<close>

theorem validate_password_policy:
  "((\<exists>reason. validate_password (JStr password) = Inr (Some reason)) \<longleftrightarrow>
      (length password < 8 \<or> \<not> (\<exists>c\<in>set password. isalpha c) \<or> \<not> (\<exists>c\<in>set password. isdigit c)))
   \<and> (validate_password (JStr password) = Inr None \<longleftrightarrow>
      \<not> (length password < 8 \<or> \<not> (\<exists>c\<in>set password. isalpha c) \<or> \<not> (\<exists>c\<in>set password. isdigit c)))
   \<and> (\<exists>reason. validate_password (JStr ''short1'') = Inr (Some reason))
   \<and> (\<exists>reason. validate_password (JStr ''alllettersnodigit'') = Inr (Some reason))
   \<and> validate_password (JStr ''alllower1'') = Inr None
   \<and> validate_password (JStr ''GOOD1234'') = Inr None"
proof -
  have examples:
    "validate_password (JStr ''short1'') = Inr (Some ''Password must be at least 8 characters long.'')"
    "validate_password (JStr ''alllettersnodigit'') =
       Inr (Some ''Password must contain at least one letter and one number.'')"
    "validate_password (JStr ''alllower1'') = Inr None"
    "validate_password (JStr ''GOOD1234'') = Inr None"
    by (simp_all add: validate_password_str isdigit_def isalpha_def)
  show ?thesis
    unfolding examples by (auto simp: validate_password_str)
qed

theorem validate_password_policy_witness:
  "\<not> length ''Passw0rd'' < 8 \<and> (\<exists>c\<in>set ''Passw0rd''. isalpha c) \<and> (\<exists>c\<in>set ''Passw0rd''. isdigit c)
   \<and> validate_password (JStr ''Passw0rd'') = Inr None"
  using validate_password_policy [of "''Passw0rd''"]
  by (simp add: isdigit_def isalpha_def)

section \<open>Authentication: what a rejection reveals\<close>

lemma require_auth_authenticated:
  "authenticated_as check us req u \<Longrightarrow> require_auth check us func req s = func (Some u) req s"
  by (auto simp: authenticated_as_def require_auth_def split: option.splits)

lemma require_auth_cases:
  "require_auth check us func req s = (Returned authentication_required, s) \<or>
   require_auth check us func req s = (Returned invalid_credentials, s) \<or>
   (\<exists>u. authenticated_as check us req u \<and> require_auth check us func req s = func (Some u) req s)"
  by (auto simp: authenticated_as_def require_auth_def split: option.splits)

text \<open>
  Claim C2. Whatever the user store holds: when credentials are presented (both fields
  not empty, so the request passed the check for missing credentials), the rejection for a
  username that is not in the store and the rejection for a known username with a password
  that does not match are the same response: status 401, the same body with the message
  \<^verbatim>\<open>Invalid username or password\<close>, the same header. The wrapped function and the state
  play no part.
\<close>

theorem rejections_indistinguishable:
  assumes "authorization req1 = Some (Authorization (Some unknown) (Some pw1))"
      and "authorization req2 = Some (Authorization (Some known) (Some pw2))"
      and "unknown \<noteq> []" and "pw1 \<noteq> []" and "known \<noteq> []" and "pw2 \<noteq> []"
      and "us unknown = None"
      and "us known = Some user_record"
      and "\<not> check (password_hash user_record) pw2"
    shows "fst (require_auth check us func1 req1 s1) = fst (require_auth check us func2 req2 s2)
         \<and> fst (require_auth check us func1 req1 s1) =
             Returned (Json (JObj [(''detail'', JStr ''Invalid username or password'')]), 401, challenge)"
  using assms by (simp add: require_auth_def invalid_credentials_def)

theorem rejections_indistinguishable_witness:
  "fst (require_auth (\<lambda>h p. h = p) [''admin'' \<mapsto> \<lparr>password_hash = ''admin123''\<rparr>] me_func
          \<lparr>authorization = Some (Authorization (Some ''mallory'') (Some ''guess'')), get_json = JNull\<rparr> ())
   = fst (require_auth (\<lambda>h p. h = p) [''admin'' \<mapsto> \<lparr>password_hash = ''admin123''\<rparr>] me_func
          \<lparr>authorization = Some (Authorization (Some ''admin'') (Some ''guess'')), get_json = JNull\<rparr> ())"
proof -
  let ?us = "[''admin'' \<mapsto> \<lparr>password_hash = ''admin123''\<rparr>]"
  have "?us ''mallory'' = None" "?us ''admin'' = Some \<lparr>password_hash = ''admin123''\<rparr>"
    "\<not> (\<lambda>h p. h = p) (password_hash \<lparr>password_hash = ''admin123''\<rparr>) ''guess''"
    "''mallory'' \<noteq> []" "''guess'' \<noteq> []" "''admin'' \<noteq> []"
    by simp_all
  then show ?thesis
    using rejections_indistinguishable
      [where ?req1.0 = "\<lparr>authorization = Some (Authorization (Some ''mallory'') (Some ''guess'')), get_json = JNull\<rparr>"
         and ?req2.0 = "\<lparr>authorization = Some (Authorization (Some ''admin'') (Some ''guess'')), get_json = JNull\<rparr>"
         and unknown = "''mallory''" and known = "''admin''" and ?pw1.0 = "''guess''" and ?pw2.0 = "''guess''"
         and us = ?us and check = "\<lambda>h p. h = p" and user_record = "\<lparr>password_hash = ''admin123''\<rparr>"
         and ?func1.0 = me_func and ?func2.0 = me_func and ?s1.0 = "()" and ?s2.0 = "()"]
    by simp
qed


section \<open>Ownership\<close>








text \<open>
  A stored object that has lost its fields is outside the amended claim: it comes from an
  update whose payload carries \<^verbatim>\<open>__dict__\<close> (claim C4). On such an object the ownership
  check and the read raise \<^verbatim>\<open>AttributeError\<close>.
\<close>

lemma damaged_book_raises:
  "update_book (\<lambda>h p. h = p)
      [''admin'' \<mapsto> \<lparr>password_hash = ''admin123''\<rparr>, ''carol'' \<mapsto> \<lparr>password_hash = ''Passw0rd''\<rparr>] ''BK001''
      \<lparr>authorization = Some (Authorization (Some ''admin'') (Some ''admin123'')),
       get_json = JObj [(''__dict__'', JObj [(''x'', JInt 1)])]\<rparr>
      initial_books
    = (Raised AttributeError, (KStr ''BK001'', [(''x'', JInt 1)]) # tl initial_books)
   \<and> update_book (\<lambda>h p. h = p)
      [''admin'' \<mapsto> \<lparr>password_hash = ''admin123''\<rparr>, ''carol'' \<mapsto> \<lparr>password_hash = ''Passw0rd''\<rparr>] ''BK001''
      \<lparr>authorization = Some (Authorization (Some ''carol'') (Some ''Passw0rd'')),
       get_json = JObj [(''stock'', JInt 0)]\<rparr>
      ((KStr ''BK001'', [(''x'', JInt 1)]) # tl initial_books)
    = (Raised AttributeError, (KStr ''BK001'', [(''x'', JInt 1)]) # tl initial_books)
   \<and> get_book ''BK001'' ((KStr ''BK001'', [(''x'', JInt 1)]) # tl initial_books) = Raised AttributeError"
proof -
  let ?us = "[''admin'' \<mapsto> \<lparr>password_hash = ''admin123''\<rparr>, ''carol'' \<mapsto> \<lparr>password_hash = ''Passw0rd''\<rparr>]"
  have a: "update_book (\<lambda>h p. h = p) ?us ''BK001''
      \<lparr>authorization = Some (Authorization (Some ''admin'') (Some ''admin123'')),
       get_json = JObj [(''__dict__'', JObj [(''x'', JInt 1)])]\<rparr>
      initial_books
    = (Raised AttributeError, (KStr ''BK001'', [(''x'', JInt 1)]) # tl initial_books)"
    by (simp add: update_book_def require_auth_def update_book_func_def py_or_def get_book_or_404_def
      ensure_owner_def getattr_def Book_def coerce_field_def hasattr_def class_attrs_def setattr_def
      book_to_dict_def asdict_def field_names_def initial_books_def)
  have b: "update_book (\<lambda>h p. h = p) ?us ''BK001''
      \<lparr>authorization = Some (Authorization (Some ''carol'') (Some ''Passw0rd'')),
       get_json = JObj [(''stock'', JInt 0)]\<rparr>
      ((KStr ''BK001'', [(''x'', JInt 1)]) # tl initial_books)
    = (Raised AttributeError, (KStr ''BK001'', [(''x'', JInt 1)]) # tl initial_books)"
    by (simp add: update_book_def require_auth_def update_book_func_def get_book_or_404_def
      ensure_owner_def getattr_def)
  have c: "get_book ''BK001'' ((KStr ''BK001'', [(''x'', JInt 1)]) # tl initial_books) = Raised AttributeError"
    by (simp add: get_book_def get_book_or_404_def book_to_dict_def asdict_def field_names_def getattr_def)
  from a b c show ?thesis by simp
qed



section \<open>Unique ids\<close>

text \<open>What each handler can do to the catalog: nothing, one store under a key, one removal.\<close>

lemma create_book_func_store:
  "snd (create_book_func g req bs) = bs \<or> (\<exists>k b. snd (create_book_func g req bs) = AList.update k b bs)"
  unfolding create_book_func_def Let_def
  by (simp split: json.split sum.split option.split) blast

lemma update_book_func_store:
  "snd (update_book_func book_id g req bs) = bs \<or> (\<exists>k b. snd (update_book_func book_id g req bs) = AList.update k b bs)"
  unfolding update_book_func_def Let_def
  by (simp split: json.split sum.split option.split prod.split) blast

lemma delete_book_func_store:
  "snd (delete_book_func book_id g req bs) = bs \<or> snd (delete_book_func book_id g req bs) = AList.delete (KStr book_id) bs"
  unfolding delete_book_func_def
  by (simp split: sum.split option.split)

lemma require_auth_store:
  "snd (require_auth check us func req s) = s \<or> (\<exists>g. snd (require_auth check us func req s) = snd (func g req s))"
  unfolding require_auth_def
  by (simp split: option.split) blast

lemma handle_keeps_ids_distinct:
  assumes "distinct (map fst (books st))"
  shows "distinct (map fst (books (snd (handle check gen ep req st))))"
proof (cases ep)
  case CreateBook
  from require_auth_store[of check "users st" create_book_func req "books st"] create_book_func_store
  have "snd (create_book check (users st) req (books st)) = books st
      \<or> (\<exists>k b. snd (create_book check (users st) req (books st)) = AList.update k b (books st))"
    unfolding create_book_def by metis
  with assms CreateBook show ?thesis
    by (auto simp: handle_def distinct_update split: prod.split)
next
  case (UpdateBook book_id)
  from require_auth_store[of check "users st" "update_book_func book_id" req "books st"] update_book_func_store
  have "snd (update_book check (users st) book_id req (books st)) = books st
      \<or> (\<exists>k b. snd (update_book check (users st) book_id req (books st)) = AList.update k b (books st))"
    unfolding update_book_def by metis
  with assms UpdateBook show ?thesis
    by (auto simp: handle_def distinct_update split: prod.split)
next
  case (DeleteBook book_id)
  from require_auth_store[of check "users st" "delete_book_func book_id" req "books st"] delete_book_func_store
  have "snd (delete_book check (users st) book_id req (books st)) = books st
      \<or> snd (delete_book check (users st) book_id req (books st)) = AList.delete (KStr book_id) (books st)"
    unfolding delete_book_def by metis
  with assms DeleteBook show ?thesis
    by (auto simp: handle_def distinct_delete split: prod.split)
next
  case Me
  from require_auth_store[of check "users st" me_func req st]
  have "snd (me check (users st) req st) = st"
    unfolding me_def by (auto simp: me_func_def split: option.splits)
  with assms Me show ?thesis by (simp add: handle_def)
qed (use assms in \<open>auto simp: handle_def split: prod.split\<close>)

lemma serve_keeps_ids_distinct:
  "distinct (map fst (books st)) \<Longrightarrow> distinct (map fst (books (serve check gen reqs st)))"
proof (induction reqs arbitrary: st)
  case Nil
  then show ?case by simp
next
  case (Cons r reqs)
  obtain ep req where r: "r = (ep, req)" by (cases r)
  from Cons.prems have "distinct (map fst (books (snd (handle check gen ep req st))))"
    by (rule handle_keeps_ids_distinct)
  then show ?case unfolding r by (simp add: Cons.IH)
qed

text \<open>
  A create request of an authenticated caller whose id (a value the handler takes as
  present) is the id of a stored book fails with 400 \<^verbatim>\<open>Book with this id already exists\<close>
  and leaves the catalog as it was.
\<close>

lemma create_book_conflict:
  assumes "authenticated_as check us req u" and "get_json req = JObj data"
      and "map_of data ''id'' = Some v" and "truthy v" and "key_of v = Inr k" and "map_of bs k = Some b"
  shows "create_book check us req bs =
           (Returned (error_response ''Book with this id already exists'' 400), bs)"
proof -
  from assms(3) have "data \<noteq> []" by auto
  with assms have "create_book_func (Some u) req bs =
      (Returned (error_response ''Book with this id already exists'' 400), bs)"
    by (simp add: create_book_func_def py_or_def dict_get_def)
  with assms(1) show ?thesis
    by (simp add: create_book_def require_auth_authenticated[of check us req u])
qed

text \<open>
  Claim C5. The ids of the stored books do not stay unique. The conflict check of the
  create operation holds, and the keys of the catalog stay distinct, but the update
  operation can give a stored book the id of another one: the owner \<^verbatim>\<open>admin\<close> sends for
  \<^verbatim>\<open>BK001\<close> a payload whose \<^verbatim>\<open>__dict__\<close> carries the id \<^verbatim>\<open>BK002\<close>, the update returns 200,
  and the catalog then holds two books with the id \<^verbatim>\<open>BK002\<close>, which the list operation
  returns to every caller.
\<close>

theorem update_dict_duplicates_id:
  "update_book (\<lambda>h p. h = p) [''admin'' \<mapsto> \<lparr>password_hash = ''admin123''\<rparr>] ''BK001''
        \<lparr>authorization = Some (Authorization (Some ''admin'') (Some ''admin123'')),
         get_json = JObj [(''__dict__'', JObj [(''id'', JStr ''BK002''), (''title'', JStr ''t''),
            (''author'', JStr ''a''), (''publisher'', JStr ''p''), (''year'', JInt 1), (''genre'', JStr ''g''),
            (''stock'', JInt 1), (''owner'', JStr ''eve'')])]\<rparr>
        initial_books
    = (Returned (Json (JObj [(''message'', JStr ''Book updated''),
         (''book'', JObj [(''id'', JStr ''BK002''), (''title'', JStr ''t''),
            (''author'', JStr ''a''), (''publisher'', JStr ''p''), (''year'', JInt 1), (''genre'', JStr ''g''),
            (''stock'', JInt 1), (''owner'', JStr ''eve'')])]), 200, []),
       (KStr ''BK001'', Book (JStr ''BK002'') (JStr ''t'') (JStr ''a'') (JStr ''p'') (JInt 1) (JStr ''g'')
           (JInt 1) (JStr ''eve'')) # tl initial_books)
   \<and> map (\<lambda>kb. getattr (snd kb) ''id'')
         ((KStr ''BK001'', Book (JStr ''BK002'') (JStr ''t'') (JStr ''a'') (JStr ''p'') (JInt 1) (JStr ''g'')
           (JInt 1) (JStr ''eve'')) # tl initial_books)
       = [Inr (JStr ''BK002''), Inr (JStr ''BK002''), Inr (JStr ''BK003'')]
   \<and> list_books ((KStr ''BK001'', Book (JStr ''BK002'') (JStr ''t'') (JStr ''a'') (JStr ''p'') (JInt 1)
           (JStr ''g'') (JInt 1) (JStr ''eve'')) # tl initial_books)
       = Returned (Listing
           [(KStr ''BK001'', JObj [(''id'', JStr ''BK002''), (''title'', JStr ''t''),
              (''author'', JStr ''a''), (''publisher'', JStr ''p''), (''year'', JInt 1), (''genre'', JStr ''g''),
              (''stock'', JInt 1), (''owner'', JStr ''eve'')]),
            (KStr ''BK002'', JObj [(''id'', JStr ''BK002''), (''title'', JStr ''Atomic Habits''),
              (''author'', JStr ''James Clear''), (''publisher'', JStr ''Avery''), (''year'', JInt 2018),
              (''genre'', JStr ''Self-help''), (''stock'', JInt 8), (''owner'', JStr ''admin'')]),
            (KStr ''BK003'', JObj [(''id'', JStr ''BK003''),
              (''title'', JStr ''Mindset: The New Psychology of Success''),
              (''author'', JStr ''Carol S. Dweck''), (''publisher'', JStr ''Random House''),
              (''year'', JInt 2006), (''genre'', JStr ''Psychology''), (''stock'', JInt 4),
              (''owner'', JStr ''admin'')])], 200, [])"
proof -
  let ?b = "Book (JStr ''BK002'') (JStr ''t'') (JStr ''a'') (JStr ''p'') (JInt 1) (JStr ''g'') (JInt 1) (JStr ''eve'')"
  have a: "update_book (\<lambda>h p. h = p) [''admin'' \<mapsto> \<lparr>password_hash = ''admin123''\<rparr>] ''BK001''
        \<lparr>authorization = Some (Authorization (Some ''admin'') (Some ''admin123'')),
         get_json = JObj [(''__dict__'', JObj [(''id'', JStr ''BK002''), (''title'', JStr ''t''),
            (''author'', JStr ''a''), (''publisher'', JStr ''p''), (''year'', JInt 1), (''genre'', JStr ''g''),
            (''stock'', JInt 1), (''owner'', JStr ''eve'')])]\<rparr>
        initial_books
    = (Returned (Json (JObj [(''message'', JStr ''Book updated''),
         (''book'', JObj [(''id'', JStr ''BK002''), (''title'', JStr ''t''),
            (''author'', JStr ''a''), (''publisher'', JStr ''p''), (''year'', JInt 1), (''genre'', JStr ''g''),
            (''stock'', JInt 1), (''owner'', JStr ''eve'')])]), 200, []),
       (KStr ''BK001'', ?b) # tl initial_books)"
    by (simp add: update_book_def require_auth_def update_book_func_def py_or_def get_book_or_404_def
      ensure_owner_def getattr_def Book_def coerce_field_def hasattr_def class_attrs_def setattr_def
      book_to_dict_def asdict_def field_names_def initial_books_def)
  have b: "map (\<lambda>kb. getattr (snd kb) ''id'') ((KStr ''BK001'', ?b) # tl initial_books)
       = [Inr (JStr ''BK002''), Inr (JStr ''BK002''), Inr (JStr ''BK003'')]"
    by (simp add: getattr_def Book_def initial_books_def)
  have c: "list_books ((KStr ''BK001'', ?b) # tl initial_books)
       = Returned (Listing
           [(KStr ''BK001'', JObj [(''id'', JStr ''BK002''), (''title'', JStr ''t''),
              (''author'', JStr ''a''), (''publisher'', JStr ''p''), (''year'', JInt 1), (''genre'', JStr ''g''),
              (''stock'', JInt 1), (''owner'', JStr ''eve'')]),
            (KStr ''BK002'', JObj [(''id'', JStr ''BK002''), (''title'', JStr ''Atomic Habits''),
              (''author'', JStr ''James Clear''), (''publisher'', JStr ''Avery''), (''year'', JInt 2018),
              (''genre'', JStr ''Self-help''), (''stock'', JInt 8), (''owner'', JStr ''admin'')]),
            (KStr ''BK003'', JObj [(''id'', JStr ''BK003''),
              (''title'', JStr ''Mindset: The New Psychology of Success''),
              (''author'', JStr ''Carol S. Dweck''), (''publisher'', JStr ''Random House''),
              (''year'', JInt 2006), (''genre'', JStr ''Psychology''), (''stock'', JInt 4),
              (''owner'', JStr ''admin'')])], 200, [])"
    by (simp add: list_books_def book_to_dict_def asdict_def Book_def field_names_def getattr_def
        sortable_def initial_books_def)
  from a b c show ?thesis by simp
qed



section \<open>Create, then read\<close>

text \<open>
  Claim C6, as amended. An authenticated identity \<open>u\<close> submits a create payload the
  handler accepts whose id is a string: the id is not empty and not in the catalog, the six
  required fields are there, year and stock are integer-coercible. Then the create succeeds
  with 201, and reading that id afterwards returns the id, title, author, publisher and
  genre as submitted, year and stock as their integer coercions, and the owner \<open>u\<close>,
  whatever the payload holds under \<^verbatim>\<open>owner\<close>.
\<close>

theorem create_then_read:
  assumes "authenticated_as check us req u"
      and "get_json req = JObj data"
      and "map_of data ''id'' = Some (JStr book_id)" and "book_id \<noteq> []"
      and "map_of bs (KStr book_id) = None"
      and "map_of data ''title'' = Some title"
      and "map_of data ''author'' = Some author"
      and "map_of data ''publisher'' = Some publisher"
      and "map_of data ''genre'' = Some genre"
      and "map_of data ''year'' = Some y" and "py_int y = Inr year"
      and "map_of data ''stock'' = Some n" and "py_int n = Inr stock"
    shows "\<exists>bs'. create_book check us req bs =
             (Returned (Json (JObj [(''message'', JStr ''Book created''),
                (''book'', JObj [(''id'', JStr book_id), (''title'', title), (''author'', author),
                   (''publisher'', publisher), (''year'', JInt year), (''genre'', genre),
                   (''stock'', JInt stock), (''owner'', JStr u)])]), 201, []), bs')
           \<and> get_book book_id bs' =
               Returned (Json (JObj [(''id'', JStr book_id), (''title'', title), (''author'', author),
                   (''publisher'', publisher), (''year'', JInt year), (''genre'', genre),
                   (''stock'', JInt stock), (''owner'', JStr u)]), 200, [])"
proof -
  let ?new = "Book (JStr book_id) title author publisher (JInt year) genre (JInt stock) (JStr u)"
  let ?content = "[(''id'', JStr book_id), (''title'', title), (''author'', author),
                   (''publisher'', publisher), (''year'', JInt year), (''genre'', genre),
                   (''stock'', JInt stock), (''owner'', JStr u)]"
  have d: "book_to_dict ?new = Inr (JObj ?content)"
    by (simp add: book_to_dict_def asdict_def Book_def field_names_def getattr_def)
  from assms(3) have ne: "data \<noteq> []" by auto
  have "create_book_func (Some u) req bs =
      (Returned (Json (JObj [(''message'', JStr ''Book created''), (''book'', JObj ?content)]), 201, []),
       AList.update (KStr book_id) ?new bs)"
    using assms(2-) ne d
    by (simp add: create_book_func_def py_or_def dict_get_def required_fields_def int_item_def subscript_def Let_def)
  with assms(1) have c: "create_book check us req bs =
      (Returned (Json (JObj [(''message'', JStr ''Book created''), (''book'', JObj ?content)]), 201, []),
       AList.update (KStr book_id) ?new bs)"
    by (simp add: create_book_def require_auth_authenticated[of check us req u])
  have "get_book book_id (AList.update (KStr book_id) ?new bs) = Returned (Json (JObj ?content), 200, [])"
    using d by (simp add: get_book_def get_book_or_404_def update_conv')
  with c show ?thesis by blast
qed

theorem create_then_read_witness:
  "\<exists>bs'. create_book (\<lambda>h p. h = p) [''carol'' \<mapsto> \<lparr>password_hash = ''Passw0rd''\<rparr>]
      \<lparr>authorization = Some (Authorization (Some ''carol'') (Some ''Passw0rd'')),
       get_json = JObj [(''id'', JStr ''BK999''), (''title'', JStr ''X''), (''author'', JStr ''Y''),
          (''publisher'', JStr ''Z''), (''year'', JStr ''2020''), (''genre'', JStr ''G''),
          (''stock'', JInt 3), (''owner'', JStr ''admin'')]\<rparr> initial_books
     = (Returned (Json (JObj [(''message'', JStr ''Book created''),
                (''book'', JObj [(''id'', JStr ''BK999''), (''title'', JStr ''X''), (''author'', JStr ''Y''),
                   (''publisher'', JStr ''Z''), (''year'', JInt 2020), (''genre'', JStr ''G''),
                   (''stock'', JInt 3), (''owner'', JStr ''carol'')])]), 201, []), bs')
     \<and> get_book ''BK999'' bs' =
         Returned (Json (JObj [(''id'', JStr ''BK999''), (''title'', JStr ''X''), (''author'', JStr ''Y''),
                   (''publisher'', JStr ''Z''), (''year'', JInt 2020), (''genre'', JStr ''G''),
                   (''stock'', JInt 3), (''owner'', JStr ''carol'')]), 200, [])"
proof -
  let ?us = "[''carol'' \<mapsto> \<lparr>password_hash = ''Passw0rd''\<rparr>]"
  let ?data = "[(''id'', JStr ''BK999''), (''title'', JStr ''X''), (''author'', JStr ''Y''),
          (''publisher'', JStr ''Z''), (''year'', JStr ''2020''), (''genre'', JStr ''G''),
          (''stock'', JInt 3), (''owner'', JStr ''admin'')]"
  let ?req = "\<lparr>authorization = Some (Authorization (Some ''carol'') (Some ''Passw0rd'')), get_json = JObj ?data\<rparr>"
  have a: "authenticated_as (\<lambda>h p. h = p) ?us ?req ''carol''"
    by (simp add: authenticated_as_def)
  have y: "py_int (JStr ''2020'') = Inr 2020"
    by (simp add: int_of_str_def int_space_def ascii_digit_def digits_value_def)
  show ?thesis
    using create_then_read [of "\<lambda>h p. h = p" ?us ?req "''carol''" ?data "''BK999''" initial_books
        "JStr ''X''" "JStr ''Y''" "JStr ''Z''" "JStr ''G''" "JStr ''2020''" 2020 "JInt 3" 3, OF a _ _ _ _ _ _ _ _ _ y]
    by (simp add: initial_books_def)
qed


text \<open>
  The claim as first stated, for every valid payload, fails when the id is not a string:
  the handler does not look at the type of the id, so it accepts the id \<^verbatim>\<open>7\<close> with 201 and
  stores the book under the number, while a read of \<^verbatim>\<open>/books/7\<close> looks for the string and
  returns 404.
\<close>

theorem create_then_read_counterexample:
  "create_book (\<lambda>h p. h = p) [''carol'' \<mapsto> \<lparr>password_hash = ''Passw0rd''\<rparr>]
      \<lparr>authorization = Some (Authorization (Some ''carol'') (Some ''Passw0rd'')),
       get_json = JObj [(''id'', JInt 7), (''title'', JStr ''X''), (''author'', JStr ''Y''),
          (''publisher'', JStr ''Z''), (''year'', JInt 2020), (''genre'', JStr ''G''), (''stock'', JInt 3)]\<rparr>
      initial_books
    = (Returned (Json (JObj [(''message'', JStr ''Book created''),
         (''book'', JObj [(''id'', JInt 7), (''title'', JStr ''X''), (''author'', JStr ''Y''),
            (''publisher'', JStr ''Z''), (''year'', JInt 2020), (''genre'', JStr ''G''),
            (''stock'', JInt 3), (''owner'', JStr ''carol'')])]), 201, []),
       initial_books @ [(KNum 7, Book (JInt 7) (JStr ''X'') (JStr ''Y'') (JStr ''Z'') (JInt 2020)
            (JStr ''G'') (JInt 3) (JStr ''carol''))])
   \<and> get_book ''7'' (initial_books @ [(KNum 7, Book (JInt 7) (JStr ''X'') (JStr ''Y'') (JStr ''Z'')
            (JInt 2020) (JStr ''G'') (JInt 3) (JStr ''carol''))])
    = Returned (error_response ''Book not found'' 404)"
proof -
  have created: "create_book (\<lambda>h p. h = p) [''carol'' \<mapsto> \<lparr>password_hash = ''Passw0rd''\<rparr>]
      \<lparr>authorization = Some (Authorization (Some ''carol'') (Some ''Passw0rd'')),
       get_json = JObj [(''id'', JInt 7), (''title'', JStr ''X''), (''author'', JStr ''Y''),
          (''publisher'', JStr ''Z''), (''year'', JInt 2020), (''genre'', JStr ''G''), (''stock'', JInt 3)]\<rparr>
      initial_books
    = (Returned (Json (JObj [(''message'', JStr ''Book created''),
         (''book'', JObj [(''id'', JInt 7), (''title'', JStr ''X''), (''author'', JStr ''Y''),
            (''publisher'', JStr ''Z''), (''year'', JInt 2020), (''genre'', JStr ''G''),
            (''stock'', JInt 3), (''owner'', JStr ''carol'')])]), 201, []),
       initial_books @ [(KNum 7, Book (JInt 7) (JStr ''X'') (JStr ''Y'') (JStr ''Z'') (JInt 2020)
            (JStr ''G'') (JInt 3) (JStr ''carol''))])"
    by (simp add: create_book_def require_auth_def create_book_func_def py_or_def dict_get_def
        required_fields_def int_item_def subscript_def Let_def book_to_dict_def asdict_def Book_def
        field_names_def getattr_def initial_books_def)
  have rd: "get_book ''7'' (initial_books @ [(KNum 7, Book (JInt 7) (JStr ''X'') (JStr ''Y'') (JStr ''Z'')
            (JInt 2020) (JStr ''G'') (JInt 3) (JStr ''carol''))])
    = Returned (error_response ''Book not found'' 404)"
    by (simp add: get_book_def get_book_or_404_def initial_books_def)
  from created rd show ?thesis by simp
qed


section \<open>Delete\<close>

text \<open>
  Claim C8. After a delete of a book id has succeeded (so the caller was authenticated and
  the owner), a single read of that id returns 404 \<^verbatim>\<open>Book not found\<close>, for any caller, and
  a second delete of the same id with the same request returns 404 as well.
\<close>

theorem delete_then_not_found:
  assumes "delete_book check us book_id req bs = (Returned (message_response ''Book deleted'' 200), bs')"
  shows "get_book book_id bs' = Returned (error_response ''Book not found'' 404)
       \<and> delete_book check us book_id req bs' = (Returned (error_response ''Book not found'' 404), bs')
       \<and> handle check gen (GetBook book_id) caller \<lparr>users = us, books = bs'\<rparr> =
           (Returned (error_response ''Book not found'' 404), \<lparr>users = us, books = bs'\<rparr>)"
proof -
  have ne: "message_response ''Book deleted'' 200 \<noteq> authentication_required"
    "message_response ''Book deleted'' 200 \<noteq> invalid_credentials"
    by (simp_all add: message_response_def authentication_required_def invalid_credentials_def)
  from require_auth_cases[of check us "delete_book_func book_id" req bs] assms ne
  obtain u where u: "authenticated_as check us req u"
    "delete_book_func book_id (Some u) req bs = (Returned (message_response ''Book deleted'' 200), bs')"
    unfolding delete_book_def by auto
  have bs': "bs' = AList.delete (KStr book_id) bs"
    using u(2) unfolding delete_book_func_def
    by (auto simp: message_response_def error_response_def get_book_or_404_def ensure_owner_def
        split: sum.splits option.splits if_splits)
  have gone: "map_of bs' (KStr book_id) = None"
    unfolding bs' by (simp add: delete_conv')
  then have g: "get_book book_id bs' = Returned (error_response ''Book not found'' 404)"
    by (simp add: get_book_def get_book_or_404_def)
  from gone have "delete_book_func book_id (Some u) req bs' = (Returned (error_response ''Book not found'' 404), bs')"
    by (simp add: delete_book_func_def get_book_or_404_def)
  with u(1) have "delete_book check us book_id req bs' = (Returned (error_response ''Book not found'' 404), bs')"
    by (simp add: delete_book_def require_auth_authenticated[of check us req u])
  with g show ?thesis by (simp add: handle_def)
qed

theorem delete_then_not_found_witness:
  "delete_book (\<lambda>h p. h = p) [''admin'' \<mapsto> \<lparr>password_hash = ''admin123''\<rparr>] ''BK001''
      \<lparr>authorization = Some (Authorization (Some ''admin'') (Some ''admin123'')), get_json = JNull\<rparr> initial_books
    = (Returned (message_response ''Book deleted'' 200), tl initial_books)
   \<and> get_book ''BK001'' (tl initial_books) = Returned (error_response ''Book not found'' 404)
   \<and> delete_book (\<lambda>h p. h = p) [''admin'' \<mapsto> \<lparr>password_hash = ''admin123''\<rparr>] ''BK001''
      \<lparr>authorization = Some (Authorization (Some ''admin'') (Some ''admin123'')), get_json = JNull\<rparr> (tl initial_books)
    = (Returned (error_response ''Book not found'' 404), tl initial_books)"
proof -
  let ?us = "[''admin'' \<mapsto> \<lparr>password_hash = ''admin123''\<rparr>]"
  let ?req = "\<lparr>authorization = Some (Authorization (Some ''admin'') (Some ''admin123'')), get_json = JNull\<rparr>"
  have d: "delete_book (\<lambda>h p. h = p) ?us ''BK001'' ?req initial_books
      = (Returned (message_response ''Book deleted'' 200), tl initial_books)"
    by (simp add: delete_book_def require_auth_def delete_book_func_def get_book_or_404_def
        ensure_owner_def getattr_def initial_books_def Book_def)
  from delete_then_not_found [OF d] d show ?thesis by blast
qed

section \<open>Registration\<close>

text \<open>\<^verbatim>\<open>register\<close> on a body that is a JSON object with a string under \<^verbatim>\<open>username\<close>.\<close>

lemma register_str_username:
  assumes "get_json req = JObj data" and "map_of data ''username'' = Some (JStr raw)"
  shows "register gen req us =
     (let username = strip raw; password = py_or (dict_get data ''password'') (JStr [])
      in if username = [] \<or> \<not> truthy password
         then (Returned (error_response ''username and password are required'' 400), us)
         else if length username < 3
         then (Returned (error_response ''username must be at least 3 characters'' 400), us)
         else if us username \<noteq> None
         then (Returned (error_response ''username already exists'' 400), us)
         else (case validate_password password of
             Inl e \<Rightarrow> (Raised e, us)
           | Inr (Some pw_error) \<Rightarrow> (Returned (error_response pw_error 400), us)
           | Inr None \<Rightarrow>
               (case generate_password_hash gen password of
                  Inl e \<Rightarrow> (Raised e, us)
                | Inr hash \<Rightarrow>
                    (Returned (message_response ''User registered successfully'' 201),
                     us(username \<mapsto> \<lparr>password_hash = hash\<rparr>)))))"
proof -
  from assms(2) have ne: "data \<noteq> []" by auto
  have e: "strip [] = []" by (simp add: strip_def)
  show ?thesis
  proof (cases "raw = []")
    case True
    with assms ne e show ?thesis
      by (simp add: register_def py_or_def dict_get_def)
  next
    case False
    with assms ne show ?thesis
      by (simp add: register_def py_or_def dict_get_def)
  qed
qed

lemma strip_prefix: "\<exists>z. dropWhile isspace s = strip s @ z"
proof -
  let ?t = "dropWhile isspace s"
  have "rev (dropWhile isspace (rev ?t)) @ rev (takeWhile isspace (rev ?t))
      = rev (takeWhile isspace (rev ?t) @ dropWhile isspace (rev ?t))"
    by (simp only: rev_append)
  also have "\<dots> = ?t"
    by (simp only: takeWhile_dropWhile_id rev_rev_ident)
  finally have "?t = rev (dropWhile isspace (rev ?t)) @ rev (takeWhile isspace (rev ?t))" by simp
  then show ?thesis unfolding strip_def by blast
qed

lemma strip_idem: "strip (strip s) = strip s"
proof -
  obtain z where z: "dropWhile isspace s = strip s @ z" using strip_prefix by blast
  have front: "dropWhile isspace (strip s) = strip s"
  proof (cases "strip s")
    case Nil
    then show ?thesis by simp
  next
    case (Cons c cs)
    with z have "dropWhile isspace s = c # (cs @ z)" by simp
    then have "\<not> isspace c" using hd_dropWhile[of isspace s] by auto
    with Cons show ?thesis by simp
  qed
  have "dropWhile isspace (rev (strip s)) = rev (strip s)"
    by (simp add: strip_def)
  with front show ?thesis by (simp add: strip_def)
qed

text \<open>
  Claim C10. Registration strips leading and trailing white space from the submitted
  username before every check and before storing: two bodies whose usernames strip to the
  same string (and whose passwords are the same) get the same response and the same
  store, and a stripped username strips to itself; a username of white space only is
  rejected as missing; an existing stripped username is a conflict; on success the user is
  stored under the stripped username. The password is validated and hashed as submitted.
\<close>

theorem register_strips_username:
  assumes "get_json req = JObj data" and "map_of data ''username'' = Some (JStr raw)"
  shows "(get_json req' = JObj data' \<and> map_of data' ''username'' = Some (JStr raw') \<and> strip raw' = strip raw \<and>
            dict_get data' ''password'' = dict_get data ''password'' \<longrightarrow>
            register gen req' us = register gen req us)
       \<and> (strip raw = [] \<longrightarrow>
            register gen req us = (Returned (error_response ''username and password are required'' 400), us))
       \<and> (3 \<le> length (strip raw) \<and> truthy (dict_get data ''password'') \<and> us (strip raw) \<noteq> None \<longrightarrow>
            register gen req us = (Returned (error_response ''username already exists'' 400), us))
       \<and> (register gen req us = (Returned (message_response ''User registered successfully'' 201), us') \<longrightarrow>
            (\<exists>p. dict_get data ''password'' = JStr p \<and> validate_password (JStr p) = Inr None \<and>
                 us (strip raw) = None \<and> us' = us(strip raw \<mapsto> \<lparr>password_hash = gen p\<rparr>)))
       \<and> strip (strip raw) = strip raw"
proof -
  note r = register_str_username[OF assms]
  have same: "get_json req' = JObj data' \<and> map_of data' ''username'' = Some (JStr raw') \<and> strip raw' = strip raw \<and>
            dict_get data' ''password'' = dict_get data ''password'' \<longrightarrow>
            register gen req' us = register gen req us"
  proof
    assume a: "get_json req' = JObj data' \<and> map_of data' ''username'' = Some (JStr raw') \<and> strip raw' = strip raw \<and>
            dict_get data' ''password'' = dict_get data ''password''"
    then have "get_json req' = JObj data'" "map_of data' ''username'' = Some (JStr raw')" by simp_all
    note r' = register_str_username[OF this]
    from a show "register gen req' us = register gen req us"
      unfolding r r' by simp
  qed
  have blank: "strip raw = [] \<longrightarrow>
            register gen req us = (Returned (error_response ''username and password are required'' 400), us)"
    unfolding r by simp
  have taken: "3 \<le> length (strip raw) \<and> truthy (dict_get data ''password'') \<and> us (strip raw) \<noteq> None \<longrightarrow>
            register gen req us = (Returned (error_response ''username already exists'' 400), us)"
    unfolding r by (auto simp: py_or_def Let_def)
  have stored: "register gen req us = (Returned (message_response ''User registered successfully'' 201), us') \<longrightarrow>
            (\<exists>p. dict_get data ''password'' = JStr p \<and> validate_password (JStr p) = Inr None \<and>
                 us (strip raw) = None \<and> us' = us(strip raw \<mapsto> \<lparr>password_hash = gen p\<rparr>))"
    unfolding r
    by (auto simp: Let_def py_or_def message_response_def error_response_def generate_password_hash_def
        split: if_splits sum.splits option.splits json.splits)
  from same blank taken stored strip_idem show ?thesis by blast
qed

theorem register_strips_username_witness:
  "register (\<lambda>p. p) \<lparr>authorization = None,
       get_json = JObj [(''username'', JStr '' alice ''), (''password'', JStr ''  abc12 '')]\<rparr>
     [''admin'' \<mapsto> \<lparr>password_hash = ''admin123''\<rparr>]
   = (Returned (message_response ''User registered successfully'' 201),
      [''admin'' \<mapsto> \<lparr>password_hash = ''admin123''\<rparr>, ''alice'' \<mapsto> \<lparr>password_hash = ''  abc12 ''\<rparr>])
   \<and> register (\<lambda>p. p) \<lparr>authorization = None,
       get_json = JObj [(''username'', JStr ''alice''), (''password'', JStr ''  abc12 '')]\<rparr>
     [''admin'' \<mapsto> \<lparr>password_hash = ''admin123''\<rparr>]
   = register (\<lambda>p. p) \<lparr>authorization = None,
       get_json = JObj [(''username'', JStr '' alice ''), (''password'', JStr ''  abc12 '')]\<rparr>
     [''admin'' \<mapsto> \<lparr>password_hash = ''admin123''\<rparr>]
   \<and> register (\<lambda>p. p) \<lparr>authorization = None,
       get_json = JObj [(''username'', JStr '' admin ''), (''password'', JStr ''  abc12 '')]\<rparr>
     [''admin'' \<mapsto> \<lparr>password_hash = ''admin123''\<rparr>]
   = (Returned (error_response ''username already exists'' 400), [''admin'' \<mapsto> \<lparr>password_hash = ''admin123''\<rparr>])
   \<and> register (\<lambda>p. p) \<lparr>authorization = None,
       get_json = JObj [(''username'', JStr ''   ''), (''password'', JStr ''  abc12 '')]\<rparr>
     [''admin'' \<mapsto> \<lparr>password_hash = ''admin123''\<rparr>]
   = (Returned (error_response ''username and password are required'' 400), [''admin'' \<mapsto> \<lparr>password_hash = ''admin123''\<rparr>])"
proof -
  let ?us = "[''admin'' \<mapsto> \<lparr>password_hash = ''admin123''\<rparr>]"
  let ?d = "\<lambda>name. [(''username'', JStr name), (''password'', JStr ''  abc12 '')]"
  let ?req = "\<lambda>name. \<lparr>authorization = None, get_json = JObj (?d name)\<rparr>"
  have s: "strip '' alice '' = ''alice''" "strip ''alice'' = ''alice''" "strip '' admin '' = ''admin''"
    "strip ''   '' = []"
    by (simp_all add: strip_def isspace_def)
  have g: "\<And>name. get_json (?req name) = JObj (?d name)"
    "\<And>name. map_of (?d name) ''username'' = Some (JStr name)"
    "\<And>name. dict_get (?d name) ''password'' = JStr ''  abc12 ''"
    by (simp_all add: dict_get_def)
  have created: "register (\<lambda>p. p) (?req '' alice '') ?us
      = (Returned (message_response ''User registered successfully'' 201),
         ?us(''alice'' \<mapsto> \<lparr>password_hash = ''  abc12 ''\<rparr>))"
    by (simp add: register_str_username[OF g(1) g(2)] s g(3) py_or_def validate_password_str
        generate_password_hash_def isdigit_def isalpha_def)
  from register_strips_username [OF g(1) g(2), of "?req ''alice''" "?d ''alice''" "''alice''" "'' alice ''" "\<lambda>p. p" ?us
      "?us(''alice'' \<mapsto> \<lparr>password_hash = ''  abc12 ''\<rparr>)"] s g
  have same: "register (\<lambda>p. p) (?req ''alice'') ?us = register (\<lambda>p. p) (?req '' alice '') ?us"
    by simp
  from register_strips_username [OF g(1) g(2), of "?req '' admin ''" "?d '' admin ''" "'' admin ''" "'' admin ''" "\<lambda>p. p" ?us ?us] s g
  have taken: "register (\<lambda>p. p) (?req '' admin '') ?us = (Returned (error_response ''username already exists'' 400), ?us)"
    by simp
  from register_strips_username [OF g(1) g(2), of "?req ''   ''" "?d ''   ''" "''   ''" "''   ''" "\<lambda>p. p" ?us ?us] s g
  have blank: "register (\<lambda>p. p) (?req ''   '') ?us = (Returned (error_response ''username and password are required'' 400), ?us)"
    by simp
  from created same taken blank show ?thesis by simp
qed


section \<open>Update: validation before assignment\<close>

text \<open>
  When \<^verbatim>\<open>year\<close> or \<^verbatim>\<open>stock\<close> is present and \<^verbatim>\<open>int\<close> fails on it, in whatever way,
  \<^verbatim>\<open>update_book\<close> leaves the catalog as it was: both coercions run before the loop that
  assigns.
\<close>

lemma delete_key_set: "fst ` set (AList.delete k al) = fst ` set al - {k}"
proof -
  have "fst ` set (AList.delete k al) = set (map fst (AList.delete k al))" by simp
  also have "\<dots> = set (removeAll k (map fst al))" by (simp only: delete_keys)
  also have "\<dots> = fst ` set al - {k}" by simp
  finally show ?thesis .
qed

lemma coerce_field_keys:
  assumes "coerce_field k d = Inr d'"
  shows "fst ` set d' = fst ` set d"
proof (cases "map_of d k")
  case None
  with assms show ?thesis by (simp add: coerce_field_def)
next
  case (Some v)
  then have "(k, v) \<in> set d" by (rule map_of_SomeD)
  then have k: "k \<in> fst ` set d" by force
  from assms Some obtain n where "d' = AList.update k (JInt n) d"
    by (auto simp: coerce_field_def split: sum.splits)
  with k show ?thesis by (auto simp: dom_update)
qed

lemma coerce_field_other:
  "coerce_field k d = Inr d' \<Longrightarrow> k' \<noteq> k \<Longrightarrow> map_of d' k' = map_of d k'"
  by (auto simp: coerce_field_def update_conv' split: option.splits sum.splits)

lemma update_book_func_validates_first:
  assumes "get_json req = JObj data"
      and "k = ''year'' \<or> k = ''stock''" and "map_of data k = Some v" and "py_int v = Inl e"
  shows "snd (update_book_func book_id g req bs) = bs"
proof -
  from assms(3) have ne: "data \<noteq> []" by auto
  let ?d1 = "AList.delete ''id'' (AList.delete ''owner'' data)"
  from assms(2,3) have k1: "map_of ?d1 k = Some v" by (auto simp: delete_conv')
  have fail: "(\<exists>e'. coerce_field ''year'' ?d1 = Inl e') \<or>
      (\<exists>d2 e'. coerce_field ''year'' ?d1 = Inr d2 \<and> coerce_field ''stock'' d2 = Inl e')"
  proof (cases "coerce_field ''year'' ?d1")
    case (Inl e')
    then show ?thesis by blast
  next
    case (Inr d2)
    with assms(2,4) k1 have "k = ''stock''" by (auto simp: coerce_field_def)
    with Inr k1 have "map_of d2 ''stock'' = Some v" by (simp add: coerce_field_other)
    with assms(4) have "coerce_field ''stock'' d2 = Inl e" by (simp add: coerce_field_def)
    with Inr show ?thesis by blast
  qed
  show ?thesis
  proof (cases "get_book_or_404 bs book_id")
    case (Inl r)
    then show ?thesis by (simp add: update_book_func_def)
  next
    case (Inr b)
    show ?thesis
    proof (cases "ensure_owner g b")
      case (Inl e')
      with Inr show ?thesis by (simp add: update_book_func_def)
    next
      case eo: (Inr r)
      show ?thesis
      proof (cases r)
        case (Some f)
        with Inr eo show ?thesis by (simp add: update_book_func_def)
      next
        case None
        with Inr eo assms(1) ne fail show ?thesis
          by (auto simp: update_book_func_def py_or_def)
      qed
    qed
  qed
qed

lemma update_book_validates_first:
  assumes "get_json req = JObj data"
      and "k = ''year'' \<or> k = ''stock''" and "map_of data k = Some v" and "py_int v = Inl e"
  shows "snd (update_book check us book_id req bs) = bs"
proof -
  from require_auth_cases[of check us "update_book_func book_id" req bs]
    update_book_func_validates_first[OF assms]
  show ?thesis unfolding update_book_def by (metis snd_conv)
qed

text \<open>
  Claim C3. The update operation does not return a validation error for every year that
  is not integer-coercible: the clause \<^verbatim>\<open>except (TypeError, ValueError)\<close> misses the
  \<^verbatim>\<open>OverflowError\<close> that \<^verbatim>\<open>int\<close> raises on an infinite float. The owner \<^verbatim>\<open>admin\<close> sends
  \<^verbatim>\<open>{"year": 1e999}\<close> for \<^verbatim>\<open>BK001\<close>: the exception leaves the handler (the catalog is
  unchanged).
\<close>

theorem update_infinite_year_raises:
  "update_book (\<lambda>h p. h = p) [''admin'' \<mapsto> \<lparr>password_hash = ''admin123''\<rparr>] ''BK001''
        \<lparr>authorization = Some (Authorization (Some ''admin'') (Some ''admin123'')),
         get_json = JObj [(''year'', JFloat PosInf)]\<rparr>
        initial_books = (Raised OverflowError, initial_books)"
  by (simp add: update_book_def require_auth_def update_book_func_def py_or_def get_book_or_404_def
      ensure_owner_def getattr_def initial_books_def Book_def coerce_field_def caught_def)


section \<open>Update: id and owner\<close>

text \<open>
  Without a key \<^verbatim>\<open>__dict__\<close> in the payload, \<^verbatim>\<open>update_book\<close> leaves the attributes
  \<^verbatim>\<open>id\<close> and \<^verbatim>\<open>owner\<close> of the stored book as they were, whether it returns or raises.
\<close>

lemma setattr_keeps:
  "setattr b f v = Inr b' \<Longrightarrow> f \<noteq> ''__dict__'' \<Longrightarrow> f \<noteq> name \<Longrightarrow> map_of b' name = map_of b name"
  by (auto simp: setattr_def update_conv' split: if_splits)

lemma set_fields_keeps:
  "name \<notin> fst ` set items \<Longrightarrow> ''__dict__'' \<notin> fst ` set items \<Longrightarrow>
   map_of (snd (set_fields b items)) name = map_of b name"
proof (induction items arbitrary: b)
  case Nil
  then show ?case by simp
next
  case (Cons fv items)
  obtain f v where fv: "fv = (f, v)" by (cases fv)
  from Cons.prems fv have f: "f \<noteq> name" "f \<noteq> ''__dict__''" by auto
  from Cons.prems have rest: "name \<notin> fst ` set items" "''__dict__'' \<notin> fst ` set items" by auto
  show ?case
  proof (cases "hasattr b f")
    case False
    with fv show ?thesis by (simp add: Cons.IH[OF rest])
  next
    case True
    show ?thesis
    proof (cases "setattr b f v")
      case (Inl e)
      with True fv show ?thesis by simp
    next
      case (Inr b')
      with f have "map_of b' name = map_of b name" by (simp add: setattr_keeps)
      with True Inr fv show ?thesis by (simp add: Cons.IH[OF rest])
    qed
  qed
qed

lemma update_book_func_keeps_id_and_owner:
  assumes "map_of bs (KStr book_id) = Some b"
      and "\<And>data. get_json req = JObj data \<Longrightarrow> ''__dict__'' \<notin> fst ` set data"
      and "name = ''id'' \<or> name = ''owner''"
  shows "\<exists>b'. map_of (snd (update_book_func book_id g req bs)) (KStr book_id) = Some b'
            \<and> map_of b' name = map_of b name"
proof -
  from assms(1) have found: "get_book_or_404 bs book_id = Inr b" by (simp add: get_book_or_404_def)
  have same: "snd (update_book_func book_id g req bs) = bs \<Longrightarrow> ?thesis"
    using assms(1) by simp
  show ?thesis
  proof (cases "ensure_owner g b")
    case (Inl e)
    with found same show ?thesis by (simp add: update_book_func_def)
  next
    case eo: (Inr r)
    show ?thesis
    proof (cases r)
      case (Some f)
      with found eo same show ?thesis by (simp add: update_book_func_def)
    next
      case None
      show ?thesis
      proof (cases "py_or (get_json req) (JObj [])")
        case (JObj data0)
        have nd: "''__dict__'' \<notin> fst ` set data0"
          using JObj assms(2) by (cases "truthy (get_json req)") (auto simp: py_or_def)
        let ?d1 = "AList.delete ''id'' (AList.delete ''owner'' data0)"
        have k1: "fst ` set ?d1 = fst ` set data0 - {''id'', ''owner''}"
          by (auto simp: delete_key_set)
        show ?thesis
        proof (cases "coerce_field ''year'' ?d1")
          case (Inl e)
          with found eo None JObj same show ?thesis by (simp add: update_book_func_def)
        next
          case y: (Inr d2)
          show ?thesis
          proof (cases "coerce_field ''stock'' d2")
            case (Inl e)
            with found eo None JObj y same show ?thesis by (simp add: update_book_func_def)
          next
            case s: (Inr d3)
            from coerce_field_keys[OF y] coerce_field_keys[OF s] k1
            have k3: "fst ` set d3 = fst ` set data0 - {''id'', ''owner''}" by simp
            with assms(3) nd have "name \<notin> fst ` set d3" "''__dict__'' \<notin> fst ` set d3" by auto
            then have keep: "map_of (snd (set_fields b d3)) name = map_of b name"
              by (rule set_fields_keeps)
            obtain err b' where sf: "set_fields b d3 = (err, b')" by (cases "set_fields b d3")
            with keep have "map_of b' name = map_of b name" by simp
            moreover have "snd (update_book_func book_id g req bs) = AList.update (KStr book_id) b' bs"
              using found eo None JObj y s sf
              by (auto simp: update_book_func_def Let_def split: option.splits sum.splits)
            ultimately show ?thesis by (simp add: update_conv')
          qed
        qed
      qed (use found eo None same in \<open>simp_all add: update_book_func_def\<close>)
    qed
  qed
qed

text \<open>
  Claim C4. A successful update can change the id and the owner of a book. The handler
  removes the keys \<^verbatim>\<open>id\<close> and \<^verbatim>\<open>owner\<close> from the payload, but its loop assigns every key
  the object answers to, and \<^verbatim>\<open>__dict__\<close> is one: the owner \<^verbatim>\<open>admin\<close> sends a payload
  whose \<^verbatim>\<open>__dict__\<close> holds a whole set of attributes, the update returns 200, and the
  book stored under \<^verbatim>\<open>BK001\<close> now has the id \<^verbatim>\<open>BK002\<close> and the owner \<^verbatim>\<open>eve\<close>.
\<close>

theorem update_dict_changes_owner:
  "update_book (\<lambda>h p. h = p) [''admin'' \<mapsto> \<lparr>password_hash = ''admin123''\<rparr>] ''BK001''
        \<lparr>authorization = Some (Authorization (Some ''admin'') (Some ''admin123'')),
         get_json = JObj [(''__dict__'', JObj [(''id'', JStr ''BK002''), (''title'', JStr ''t''),
            (''author'', JStr ''a''), (''publisher'', JStr ''p''), (''year'', JInt 1), (''genre'', JStr ''g''),
            (''stock'', JInt 1), (''owner'', JStr ''eve'')])]\<rparr>
        [(KStr ''BK001'', Book (JStr ''BK001'') (JStr ''Designing Your Life'') (JStr ''Bill Burnett'')
           (JStr ''Knopf'') (JInt 2016) (JStr ''Self-help'') (JInt 5) (JStr ''admin''))]
    = (Returned (Json (JObj [(''message'', JStr ''Book updated''),
         (''book'', JObj [(''id'', JStr ''BK002''), (''title'', JStr ''t''),
            (''author'', JStr ''a''), (''publisher'', JStr ''p''), (''year'', JInt 1), (''genre'', JStr ''g''),
            (''stock'', JInt 1), (''owner'', JStr ''eve'')])]), 200, []),
       [(KStr ''BK001'', Book (JStr ''BK002'') (JStr ''t'') (JStr ''a'') (JStr ''p'') (JInt 1) (JStr ''g'')
           (JInt 1) (JStr ''eve''))])"
  by (simp add: update_book_def require_auth_def update_book_func_def py_or_def get_book_or_404_def
      ensure_owner_def getattr_def Book_def coerce_field_def hasattr_def class_attrs_def setattr_def
      book_to_dict_def asdict_def field_names_def)


section \<open>Exceptions that leave a handler\<close>

text \<open>
  Claim C9. Not every request body ends in a response built by the handler. A body that
  is a JSON array is not empty, so \<^verbatim>\<open>request.get_json() or {}\<close> keeps it, and the first
  dict method called on it raises: \<^verbatim>\<open>register\<close> (for any caller and any store) and
  \<^verbatim>\<open>create_book\<close> raise \<^verbatim>\<open>AttributeError\<close> at \<^verbatim>\<open>data.get\<close>, \<^verbatim>\<open>update_book\<close> raises
  \<^verbatim>\<open>TypeError\<close> at \<^verbatim>\<open>data.pop("owner", None)\<close>.
\<close>

theorem non_object_body_raises:
  "register gen \<lparr>authorization = a, get_json = JArr [JInt 1]\<rparr> us = (Raised AttributeError, us)
   \<and> create_book (\<lambda>h p. h = p) [''admin'' \<mapsto> \<lparr>password_hash = ''admin123''\<rparr>]
        \<lparr>authorization = Some (Authorization (Some ''admin'') (Some ''admin123'')), get_json = JArr [JInt 1]\<rparr>
        initial_books = (Raised AttributeError, initial_books)
   \<and> update_book (\<lambda>h p. h = p) [''admin'' \<mapsto> \<lparr>password_hash = ''admin123''\<rparr>] ''BK001''
        \<lparr>authorization = Some (Authorization (Some ''admin'') (Some ''admin123'')), get_json = JArr [JInt 1]\<rparr>
        initial_books = (Raised TypeError, initial_books)"
  by (simp add: register_def create_book_def update_book_def require_auth_def create_book_func_def
      update_book_func_def py_or_def get_book_or_404_def ensure_owner_def getattr_def initial_books_def Book_def)

end
